theory Spec2Isabelle
  imports Complex_Main "HOL-Library.Sublist" "HOL-Library.Log_Nat"
begin

section \<open>Numbers and strings of the source\<close>

text \<open>
  The source is \<^verbatim>\<open>run_signals.py\<close>. Its prices and distances are Python floats, that is
  IEEE binary64 numbers. A float is modelled by the real number it denotes, and the
  rounding that every float operation performs is written out. Symbols are ASCII strings,
  for which Python's code points and the characters of \<open>string\<close> coincide.
\<close>

text \<open>The nearest integer, a tie going to the even neighbour.\<close>

definition round_half_even :: "real \<Rightarrow> int" where
  "round_half_even x =
     (let f = \<lfloor>x\<rfloor>; d = x - of_int f
      in if d < 1 / 2 then f
         else if 1 / 2 < d then f + 1
         else if even f then f else f + 1)"

text \<open>
  The binary exponent under which a real number is rounded to binary64: the \<open>e\<close> with
  \<open>2^e \<le> \<bar>x\<bar> < 2^(e+1)\<close>, and \<open>-1022\<close> for anything smaller (the subnormal range).
\<close>

definition double_exponent :: "real \<Rightarrow> int" where
  "double_exponent x =
     (let a = \<bar>x\<bar>
      in if 1 \<le> a then bitlen \<lfloor>a\<rfloor> - 1
         else max (- bitlen (\<lceil>1 / a\<rceil> - 1)) (- 1022))"

text \<open>
  \<open>double_of x\<close> is the binary64 number nearest to \<open>x\<close>: a significand of 53 bits, a tie
  going to the even significand. It is the float that the literal or the JSON number
  written \<open>x\<close> denotes, and the result of a float operation whose exact result is \<open>x\<close>.
  Infinities and NaN are not modelled: beyond the largest binary64 number (about 1.8e308),
  where Python gives \<^verbatim>\<open>inf\<close>, \<open>double_of\<close> keeps rounding to 53 bits. Statements that
  depend on the value of a distance in general bound the operands accordingly.
\<close>

definition double_of :: "real \<Rightarrow> real" where
  "double_of x =
     (let q = 2 powi (double_exponent x - 52)
      in of_int (round_half_even (x / q)) * q)"

text \<open>
  Python's \<^verbatim>\<open>a - b\<close> and \<^verbatim>\<open>a / b\<close> on floats: the exact result on the operands'
  values, rounded. Entries, prices and pip values are floats; where one is written as a
  decimal that is not a binary64 number (1.12, 0.01), it stands for the float nearest to
  it, so the operands are converted first. The conversion changes nothing on a binary64
  number (lemmas \<open>double_of_fixed\<close> and \<open>float_ops_on_floats\<close> below).
\<close>

definition float_sub :: "real \<Rightarrow> real \<Rightarrow> real" where
  "float_sub a b = double_of (double_of a - double_of b)"

definition float_div :: "real \<Rightarrow> real \<Rightarrow> real" where
  "float_div a b = double_of (double_of a / double_of b)"

text \<open>
  Python's \<^verbatim>\<open>round(x, 2)\<close> on a float: the exact value of \<open>x\<close> is rounded to two
  decimals, a tie going to the even neighbour, and the decimal obtained is converted back
  to the nearest float.
\<close>

definition py_round2 :: "real \<Rightarrow> real" where
  "py_round2 x = double_of (of_int (round_half_even (double_of x * 100)) / 100)"

text \<open>Python's \<^verbatim>\<open>sub in s\<close> on strings: \<open>sub\<close> occurs in \<open>s\<close> as a contiguous block.\<close>

fun py_in :: "string \<Rightarrow> string \<Rightarrow> bool" where
  "py_in sub [] = (sub = [])"
| "py_in sub (c # cs) = (prefix sub (c # cs) \<or> py_in sub cs)"

text \<open>\<^verbatim>\<open>str.upper()\<close> on ASCII: the letters a to z move to A to Z, nothing else changes.\<close>

definition upper_char :: "char \<Rightarrow> char" where
  "upper_char c =
     (let n = (of_char c :: nat)
      in if 97 \<le> n \<and> n \<le> 122 then char_of (n - 32) else c)"

definition upper :: "string \<Rightarrow> string" where
  "upper s = map upper_char s"

text \<open>\<^verbatim>\<open>a or b\<close> on strings: the first operand unless it is empty.\<close>

definition py_or :: "string \<Rightarrow> string \<Rightarrow> string" where
  "py_or a b = (if a = [] then b else a)"

section \<open>Pip value and pip distance\<close>

text \<open>
  \<^verbatim>\<open>get_pip_value\<close>, lines 113 to 134. The dictionary \<^verbatim>\<open>pip_values\<close> built at the top of
  the function is never read; the result comes from the chain of substring tests alone.
\<close>

definition get_pip_value :: "string \<Rightarrow> real" where
  "get_pip_value symbol =
     (if py_in ''JPY'' symbol then 1
      else if py_in ''XAU'' symbol \<or> py_in ''GOLD'' (upper symbol) then 10
      else 1 / 100)"

text \<open>
  \<^verbatim>\<open>calculate_pip_distance\<close>, lines 137 to 145. The pip value is divided by as the float
  its literal denotes: \<^verbatim>\<open>0.0100\<close> is the binary64 number nearest to 1/100.
\<close>

definition calculate_pip_distance :: "real option \<Rightarrow> real option \<Rightarrow> string \<Rightarrow> real option" where
  "calculate_pip_distance entry current_price symbol =
     (case entry of
        None \<Rightarrow> None
      | Some e \<Rightarrow>
          (case current_price of
             None \<Rightarrow> None
           | Some p \<Rightarrow>
               (let pip_value = get_pip_value symbol;
                    distance = \<bar>float_sub e p\<bar>;
                    pips = float_div distance pip_value
                in Some (py_round2 pips))))"

section \<open>Symbol format of the quote service\<close>

text \<open>\<^verbatim>\<open>format_symbol_for_twelvedata\<close>, lines 148 to 166, tests in the order of the source.\<close>

definition format_symbol_for_twelvedata :: "string \<Rightarrow> string" where
  "format_symbol_for_twelvedata symbol =
     (if symbol = ''XAUUSD'' then ''XAU/USD''
      else if length symbol = 6 then take 3 symbol @ ''/'' @ drop 3 symbol
      else if py_in ''/'' symbol then symbol
      else symbol)"

section \<open>Signal records\<close>

text \<open>
  The response dictionary, with the fields and types of \<^verbatim>\<open>SIGNAL_SCHEMA\<close> (all of them
  required; a nullable number is an option).
\<close>

record signal_record =
  symbol :: string
  timeframe :: string
  timestamp_utc :: string
  signal :: string
  confidence :: real
  entry :: "real option"
  stop :: "real option"
  targets :: "real list"
  rationale :: string
  invalidation :: string
  prompt_name :: string
  raw_notes :: string
  current_price :: "real option"
  entry_distance_pips :: "real option"

text \<open>
  The texts the validator writes. Those built by an f-string carry the numbers that are
  interpolated, in the order of the source:
  \<^item> \<open>NoCurrentPrice\<close>: "No current price available for validation";
  \<^item> \<open>NullEntryReason\<close>: "Entry price is null but signal is not HOLD";
  \<^item> \<open>NullEntryWarning\<close>: "Entry price is null - forcing HOLD";
  \<^item> \<open>TooFarReason entry pips price\<close>: "Entry price (entry) is pips pips away from current
    price (price), exceeding 100 pip limit";
  \<^item> \<open>TooFarWarning pips\<close>: "Entry too far from current price: pips pips (max 100)";
  \<^item> \<open>NonPositiveReason entry\<close>: "Entry price (entry) is unrealistic (non-positive)";
  \<^item> \<open>NonPositiveWarning\<close>: "Entry price is non-positive - forcing HOLD".
\<close>

datatype message =
    NoCurrentPrice
  | NullEntryReason
  | NullEntryWarning
  | TooFarReason real real real
  | TooFarWarning real
  | NonPositiveReason real
  | NonPositiveWarning

record validation =
  valid :: bool
  original_signal :: string
  final_signal :: string
  violation_reason :: "message option"
  v_entry_distance_pips :: "real option"
  v_current_price :: "real option"
  warnings :: "message list"

section \<open>The entry validator\<close>

text \<open>\<^verbatim>\<open>validate_entry_price\<close>, lines 618 to 676.\<close>

definition validate_entry_price ::
  "'a signal_record_scheme \<Rightarrow> real option \<Rightarrow> string \<Rightarrow> validation" where
  "validate_entry_price result cur_price symb =
     (let v0 = \<lparr>valid = True,
                original_signal = signal result,
                final_signal = signal result,
                violation_reason = None,
                v_entry_distance_pips = None,
                v_current_price = cur_price,
                warnings = []\<rparr>
      in if signal result = ''HOLD'' then v0\<lparr>v_entry_distance_pips := None\<rparr>
         else
           (case cur_price of
              None \<Rightarrow>
                v0\<lparr>warnings := warnings v0 @ [NoCurrentPrice],
                   v_entry_distance_pips := None\<rparr>
            | Some p \<Rightarrow>
                (case entry result of
                   None \<Rightarrow>
                     v0\<lparr>valid := False,
                        final_signal := ''HOLD'',
                        violation_reason := Some NullEntryReason,
                        warnings := warnings v0 @ [NullEntryWarning]\<rparr>
                 | Some e \<Rightarrow>
                     (let pip_distance = calculate_pip_distance (Some e) (Some p) symb;
                          v1 = v0\<lparr>v_entry_distance_pips := pip_distance\<rparr>;
                          v2 = (case pip_distance of
                                  None \<Rightarrow> v1
                                | Some d \<Rightarrow>
                                    if 100 < d
                                    then v1\<lparr>valid := False,
                                            final_signal := ''HOLD'',
                                            violation_reason := Some (TooFarReason e d p),
                                            warnings := warnings v1 @ [TooFarWarning d]\<rparr>
                                    else v1);
                          v3 = (if e \<le> 0
                                then v2\<lparr>valid := False,
                                        final_signal := ''HOLD'',
                                        violation_reason := Some (NonPositiveReason e),
                                        warnings := warnings v2 @ [NonPositiveWarning]\<rparr>
                                else v2)
                      in v3))))"

section \<open>The signal requester\<close>

text \<open>
  The arguments of \<^verbatim>\<open>call_model_structured\<close> that its retry loop and its field filling
  read (lines 682 to 695); \<^verbatim>\<open>max_retries\<close> defaults to 5.
\<close>

record call_args =
  a_prompt_name :: string
  a_symbol :: string
  a_timeframe :: string
  a_timestamp_utc :: string
  a_notes :: string
  a_current_price :: "real option"
  max_retries :: int

text \<open>
  Lines 780 to 791, run on the parsed response. Each assignment reads the response's own
  value of the key it writes, or \<^verbatim>\<open>entry\<close>, which none of them writes, so the seven
  assignments are one simultaneous update.
\<close>

definition ensure_required_fields :: "call_args \<Rightarrow> signal_record \<Rightarrow> signal_record" where
  "ensure_required_fields args data =
     data\<lparr>prompt_name := a_prompt_name args,
          symbol := py_or (symbol data) (a_symbol args),
          timeframe := py_or (timeframe data) (a_timeframe args),
          timestamp_utc := py_or (timestamp_utc data) (a_timestamp_utc args),
          raw_notes := py_or (raw_notes data) (a_notes args),
          current_price := a_current_price args,
          entry_distance_pips :=
            calculate_pip_distance (entry data) (a_current_price args) (a_symbol args)\<rparr>"

text \<open>
  \<^verbatim>\<open>backoff_sleep\<close>, lines 243 to 246: the number of seconds slept, given the value that
  \<^verbatim>\<open>random.uniform(0, 0.7)\<close> drew.
\<close>

definition backoff_sleep :: "int \<Rightarrow> real \<Rightarrow> real" where
  "backoff_sleep attempt jitter =
     (let base = min (2 ^ nat attempt) (30 :: int)
      in of_int base + jitter)"

text \<open>
  The failure raised once the loop is over:
  "OpenAI call failed after \<open>max_retries\<close> attempts. Last error: \<open>last_err\<close>".
\<close>

datatype error = RuntimeError int "string option"

text \<open>
  The loop of lines 755 to 803. What the outside world does is a parameter: \<open>respond\<close> gives,
  for each attempt, either the text of the exception raised inside the \<^verbatim>\<open>try\<close> block
  (transport failure, empty response, JSON that does not parse) or the parsed response;
  \<open>jitter\<close> gives the random term of each sleep. The result is what the call returns or
  raises, with the sleeps made, in order.
\<close>

function attempt_loop ::
  "call_args \<Rightarrow> (int \<Rightarrow> string + signal_record) \<Rightarrow> (int \<Rightarrow> real) \<Rightarrow>
   int \<Rightarrow> string option \<Rightarrow> real list \<Rightarrow> (error + signal_record) \<times> real list" where
  "attempt_loop args respond jitter attempt last_err slept =
     (if attempt < max_retries args then
        (case respond attempt of
           Inr data \<Rightarrow> (Inr (ensure_required_fields args data), slept)
         | Inl e \<Rightarrow>
             attempt_loop args respond jitter (attempt + 1) (Some e)
               (if attempt < max_retries args - 1
                then slept @ [backoff_sleep attempt (jitter attempt)]
                else slept))
      else (Inl (RuntimeError (max_retries args) last_err), slept))"
  by pat_completeness auto
termination
  by (relation "measure (\<lambda>(args, respond, jitter, attempt, last_err, slept).
                  nat (max_retries args - attempt))") auto

declare attempt_loop.simps [simp del]

definition call_model_structured ::
  "call_args \<Rightarrow> (int \<Rightarrow> string + signal_record) \<Rightarrow> (int \<Rightarrow> real) \<Rightarrow>
   (error + signal_record) \<times> real list" where
  "call_model_structured args respond jitter = attempt_loop args respond jitter 0 None []"

section \<open>The orchestrator's use of the validator\<close>

text \<open>
  The record that \<^verbatim>\<open>main\<close> saves: the response with the key \<^verbatim>\<open>validation\<close>, and with
  \<^verbatim>\<open>original_signal\<close> when the validation failed.
\<close>

record persisted_record = signal_record +
  r_validation :: validation
  r_original_signal :: "string option"

text \<open>Lines 913 to 925 of \<^verbatim>\<open>main\<close>.\<close>

definition apply_validation :: "signal_record \<Rightarrow> validation \<Rightarrow> persisted_record" where
  "apply_validation result v =
     (if \<not> valid v
      then signal_record.extend (result\<lparr>signal := final_signal v\<rparr>)
             (persisted_record.fields v (Some (original_signal v)))
      else signal_record.extend result (persisted_record.fields v None))"

text \<open>
  Lines 897 to 925 for a response that arrived: the requester's field filling, the
  validator on its result with the same reference price and symbol, then the write-back.
\<close>

definition process_response :: "call_args \<Rightarrow> signal_record \<Rightarrow> persisted_record" where
  "process_response args data =
     (let result = ensure_required_fields args data;
          v = validate_entry_price result (a_current_price args) (a_symbol args)
      in apply_validation result v)"

section \<open>Concrete inputs\<close>

text \<open>
  A response as the model may send it, with the signal and the entry left open, and the
  arguments of a call for EURUSD with the reference price left open. The scenarios below
  are stated on them.
\<close>

definition sample_response :: "string \<Rightarrow> real option \<Rightarrow> signal_record" where
  "sample_response sg en =
     \<lparr>symbol = ''EURUSD'', timeframe = ''5m'', timestamp_utc = ''2025-01-01T10:00:00+00:00'',
      signal = sg, confidence = 7 / 10, entry = en, stop = None, targets = [],
      rationale = ''trend'', invalidation = ''break'', prompt_name = ''model'',
      raw_notes = [], current_price = Some 5, entry_distance_pips = Some 7\<rparr>"

definition sample_args :: "real option \<Rightarrow> call_args" where
  "sample_args price =
     \<lparr>a_prompt_name = ''prompt1'', a_symbol = ''EURUSD'', a_timeframe = ''15m'',
      a_timestamp_utc = ''2025-01-01T10:00:05+00:00'', a_notes = ''notes'',
      a_current_price = price, max_retries = 5\<rparr>"

text \<open>
  Two runs of the outside world for Scenario E: four malformed responses and then a valid
  one, and five failures, the last of them an empty response.
\<close>

definition four_failures_then_valid :: "int \<Rightarrow> string + signal_record" where
  "four_failures_then_valid i =
     (if i < 4 then Inl ''JSONDecodeError: Expecting value''
      else Inr (sample_response ''BUY'' (Some (1105 / 1000))))"

definition five_failures :: "int \<Rightarrow> string + signal_record" where
  "five_failures i =
     (if i < 4 then Inl ''JSONDecodeError: Expecting value''
      else Inl ''ValueError: Empty response from OpenAI API'')"

section \<open>Auxiliary facts\<close>

lemma py_in_sublist: "py_in sub s = sublist sub s"
  by (induction s) (auto simp: sublist_Cons_right)

text \<open>
  The rounding to binary64. The exponent chosen brackets the number; the result is within
  half a unit in the last place, that is within a relative error of \<open>2^-53\<close> (or
  \<open>2^-1075\<close> absolutely, in the subnormal range); a number that is a binary64 number is
  left unchanged, and every result is one.
\<close>

lemma bitlen_pos: "1 \<le> m \<Longrightarrow> 1 \<le> bitlen m"
  using bitlen_nonneg [of m] bitlen_eq_zero_iff [of m] by linarith

lemma two_powi_nat: "0 \<le> k \<Longrightarrow> (2 :: real) powi k = of_int (2 ^ nat k)"
  by (simp add: power_int_nonneg_exp)

lemma double_exponent_ge1:
  assumes "1 \<le> \<bar>x\<bar>"
  shows "2 powi double_exponent x \<le> \<bar>x\<bar>" and "\<bar>x\<bar> < 2 powi (double_exponent x + 1)"
proof -
  define m where "m = \<lfloor>\<bar>x\<bar>\<rfloor>"
  have m: "1 \<le> m" using assms by (simp add: m_def le_floor_iff)
  have e: "double_exponent x = bitlen m - 1"
    using assms by (simp add: double_exponent_def m_def Let_def)
  have k: "1 \<le> bitlen m" using m by (rule bitlen_pos)
  from bitlen_bounds [of m] m
  have lo: "2 ^ nat (bitlen m - 1) \<le> m" and hi: "m < 2 ^ nat (bitlen m)" by simp_all
  have "(2 :: real) powi (bitlen m - 1) = of_int (2 ^ nat (bitlen m - 1))"
    using k by (intro two_powi_nat) simp
  also have "\<dots> \<le> of_int m" using lo by (simp only: of_int_le_iff)
  also have "\<dots> \<le> \<bar>x\<bar>" by (simp add: m_def)
  finally show "2 powi double_exponent x \<le> \<bar>x\<bar>" by (simp add: e)
  have "m + 1 \<le> 2 ^ nat (bitlen m)" using hi by simp
  then have "of_int (m + 1) \<le> (of_int (2 ^ nat (bitlen m)) :: real)"
    by (simp only: of_int_le_iff)
  moreover have "\<bar>x\<bar> < of_int (m + 1)" by (simp add: m_def)
  moreover have "(2 :: real) powi bitlen m = of_int (2 ^ nat (bitlen m))"
    using k by (intro two_powi_nat) simp
  ultimately show "\<bar>x\<bar> < 2 powi (double_exponent x + 1)" by (simp add: e)
qed

lemma double_exponent_lt1:
  assumes "\<bar>x\<bar> < 1" and "x \<noteq> 0"
  shows "double_exponent x = - 1022 \<or> 2 powi double_exponent x \<le> \<bar>x\<bar>"
    and "\<bar>x\<bar> < 2 powi (double_exponent x + 1)"
proof -
  define a where "a = \<bar>x\<bar>"
  define n where "n = \<lceil>1 / a\<rceil> - 1"
  define k where "k = bitlen n"
  have a: "0 < a" "a < 1" using assms by (simp_all add: a_def)
  then have inv: "1 < 1 / a" by simp
  then have "1 < \<lceil>1 / a\<rceil>" by (simp add: less_ceiling_iff)
  then have n: "1 \<le> n" by (simp add: n_def)
  have k: "1 \<le> k" unfolding k_def using n by (rule bitlen_pos)
  have e: "double_exponent x = max (- k) (- 1022)"
    using assms by (simp add: double_exponent_def Let_def a_def n_def k_def)
  from bitlen_bounds [of n] n
  have lo: "2 ^ nat (k - 1) \<le> n" and hi: "n < 2 ^ nat k" by (simp_all add: k_def)
  have below: "of_int n < 1 / a" unfolding n_def by linarith
  have above: "1 / a \<le> of_int (n + 1)" unfolding n_def by simp
  have pk: "(2 :: real) powi k = of_int (2 ^ nat k)"
    using k by (intro two_powi_nat) simp
  have pk1: "(2 :: real) powi (k - 1) = of_int (2 ^ nat (k - 1))"
    using k by (intro two_powi_nat) simp
  have "n + 1 \<le> 2 ^ nat k" using hi by simp
  then have "of_int (n + 1) \<le> (of_int (2 ^ nat k) :: real)" by (simp only: of_int_le_iff)
  then have "real_of_int (n + 1) \<le> 2 powi k" by (simp only: pk)
  with above have "1 / a \<le> 2 powi k" by linarith
  then have "1 \<le> 2 powi k * a" using a by (simp add: field_simps)
  then have ge: "2 powi (- k) \<le> a"
    by (simp add: power_int_minus field_simps)
  have "(of_int (2 ^ nat (k - 1)) :: real) \<le> of_int n" using lo by (simp only: of_int_le_iff)
  then have "2 powi (k - 1) \<le> real_of_int n" by (simp only: pk1)
  with below have "2 powi (k - 1) < 1 / a" by linarith
  then have "a < 1 / 2 powi (k - 1)" using a by (simp add: field_simps)
  also have "1 / 2 powi (k - 1) = (2 :: real) powi (- (k - 1))"
    by (simp only: power_int_minus_divide)
  finally have lt: "a < 2 powi (- k + 1)" by simp
  show "double_exponent x = - 1022 \<or> 2 powi double_exponent x \<le> \<bar>x\<bar>"
    using ge e by (cases "- k \<le> - 1022") (simp_all add: a_def max_def)
  have "(2 :: real) powi (- k + 1) \<le> 2 powi (double_exponent x + 1)"
    by (intro power_int_increasing) (simp_all add: e)
  with lt show "\<bar>x\<bar> < 2 powi (double_exponent x + 1)" by (simp add: a_def)
qed

lemma double_exponent_lower:
  "x \<noteq> 0 \<Longrightarrow> double_exponent x = - 1022 \<or> 2 powi double_exponent x \<le> \<bar>x\<bar>"
  using double_exponent_ge1 (1) [of x] double_exponent_lt1 (1) [of x]
  by (cases "1 \<le> \<bar>x\<bar>") auto

lemma double_exponent_upper: "\<bar>x\<bar> < 2 powi (double_exponent x + 1)"
proof (cases "x = 0")
  case True then show ?thesis by simp
next
  case False
  then show ?thesis
    using double_exponent_ge1 (2) [of x] double_exponent_lt1 (2) [of x]
    by (cases "1 \<le> \<bar>x\<bar>") auto
qed

lemma double_exponent_min: "- 1022 \<le> double_exponent x"
  using bitlen_nonneg [of "\<lfloor>\<bar>x\<bar>\<rfloor>"] bitlen_pos [of "\<lfloor>\<bar>x\<bar>\<rfloor>"]
  by (auto simp: double_exponent_def Let_def le_floor_iff)

lemma round_half_even_of_int: "round_half_even (of_int n) = n"
  by (simp add: round_half_even_def)

lemma round_half_even_close: "\<bar>of_int (round_half_even x) - x\<bar> \<le> 1 / 2"
proof -
  have "of_int \<lfloor>x\<rfloor> \<le> x" "x < of_int \<lfloor>x\<rfloor> + 1" by linarith+
  then show ?thesis
    by (auto simp: round_half_even_def Let_def)
qed

lemma double_of_error: "\<bar>double_of x - x\<bar> \<le> 2 powi (double_exponent x - 53)"
proof -
  define q :: real where "q = 2 powi (double_exponent x - 52)"
  define A :: real where "A = of_int (round_half_even (x / q))"
  have q: "0 < q" by (simp add: q_def)
  have close: "\<bar>A - x / q\<bar> \<le> 1 / 2"
    unfolding A_def by (rule round_half_even_close)
  have half: "1 / 2 * q = 2 powi (double_exponent x - 53)"
    unfolding q_def by (simp add: power_int_diff)
  have "double_of x - x = (A - x / q) * q"
    using q by (simp add: double_of_def Let_def q_def A_def field_simps)
  then have "\<bar>double_of x - x\<bar> = \<bar>A - x / q\<bar> * q"
    using q by (simp add: abs_mult)
  also have "\<dots> \<le> 1 / 2 * q"
    using close q by (intro mult_right_mono) simp_all
  finally show ?thesis
    using half by simp
qed

lemma double_of_zero: "double_of 0 = 0"
  by (simp add: double_of_def round_half_even_def)

lemma double_of_rel_error: "\<bar>double_of x - x\<bar> \<le> \<bar>x\<bar> / 2 ^ 53 + 2 powi (- 1075)"
proof (cases "x = 0")
  case True
  then show ?thesis by (simp add: double_of_zero)
next
  case False
  note err = double_of_error [of x]
  from double_exponent_lower [OF False] show ?thesis
  proof
    assume "double_exponent x = - 1022"
    with err have "\<bar>double_of x - x\<bar> \<le> 2 powi (- 1075)" by simp
    moreover have "0 \<le> \<bar>x\<bar> / 2 ^ 53" by simp
    ultimately show ?thesis by linarith
  next
    assume lo: "2 powi double_exponent x \<le> \<bar>x\<bar>"
    have "(2 :: real) powi (double_exponent x - 53) = 2 powi double_exponent x / 2 ^ 53"
      by (simp add: power_int_diff)
    also have "\<dots> \<le> \<bar>x\<bar> / 2 ^ 53"
      using lo by (intro divide_right_mono) simp_all
    finally have "\<bar>double_of x - x\<bar> \<le> \<bar>x\<bar> / 2 ^ 53" using err by linarith
    moreover have "0 \<le> (2 :: real) powi (- 1075)" by simp
    ultimately show ?thesis by linarith
  qed
qed

lemma double_of_fixed:
  assumes "\<bar>m\<bar> < 2 ^ 53" and "- 1074 \<le> E"
  shows "double_of (of_int m * 2 powi E) = of_int m * 2 powi E"
proof (cases "m = 0")
  case True
  then show ?thesis by (simp add: double_of_zero)
next
  case False
  define x :: real where "x = of_int m * 2 powi E"
  define e where "e = double_exponent x"
  have x0: "x \<noteq> 0" using False by (simp add: x_def)
  have absx: "\<bar>x\<bar> = of_int \<bar>m\<bar> * 2 powi E" by (simp add: x_def abs_mult)
  have "real_of_int \<bar>m\<bar> < real_of_int (2 ^ 53)" using assms(1) by (simp only: of_int_less_iff)
  then have "\<bar>x\<bar> < 2 ^ 53 * 2 powi E"
    unfolding absx by (intro mult_strict_right_mono) simp_all
  also have "\<dots> = 2 powi (E + 53)" by (simp add: power_int_add)
  finally have up: "\<bar>x\<bar> < 2 powi (E + 53)" .
  have eE: "e - 52 \<le> E"
    using double_exponent_lower [OF x0]
  proof
    assume "double_exponent x = - 1022"
    then show ?thesis using assms(2) by (simp add: e_def)
  next
    assume "2 powi double_exponent x \<le> \<bar>x\<bar>"
    with up have lt: "(2 :: real) powi e < 2 powi (E + 53)" by (simp add: e_def)
    have "e < E + 53"
    proof (rule ccontr)
      assume "\<not> e < E + 53"
      then have "(2 :: real) powi (E + 53) \<le> 2 powi e"
        by (intro power_int_increasing) simp_all
      with lt show False by simp
    qed
    then show ?thesis by simp
  qed
  define d where "d = nat (E - (e - 52))"
  have "(2 :: real) powi E / 2 powi (e - 52) = 2 powi (E - (e - 52))"
    by (simp add: power_int_diff)
  also have "\<dots> = 2 ^ d"
    using eE by (simp add: d_def power_int_nonneg_exp)
  finally have quot: "(2 :: real) powi E = 2 ^ d * 2 powi (e - 52)"
    by (simp add: field_simps)
  have "x / 2 powi (e - 52) = of_int (m * 2 ^ d)"
    by (simp add: x_def quot)
  then have "round_half_even (x / 2 powi (e - 52)) = m * 2 ^ d"
    by (simp only: round_half_even_of_int)
  then have "double_of x = of_int (m * 2 ^ d) * 2 powi (e - 52)"
    by (simp add: double_of_def Let_def e_def)
  also have "\<dots> = x" by (simp add: x_def quot)
  finally show ?thesis by (simp add: x_def)
qed

lemma round_half_even_bound:
  assumes "\<bar>y\<bar> < of_int N"
  shows "\<bar>round_half_even y\<bar> \<le> N"
proof -
  have "\<bar>real_of_int (round_half_even y)\<bar> \<le> \<bar>y\<bar> + 1 / 2"
    using round_half_even_close [of y] by linarith
  with assms have "real_of_int \<bar>round_half_even y\<bar> < real_of_int N + 1 / 2" by simp
  then have "real_of_int \<bar>round_half_even y\<bar> < real_of_int (N + 1)" by simp
  then have "\<bar>round_half_even y\<bar> < N + 1" by (simp only: of_int_less_iff)
  then show ?thesis by simp
qed

lemma two_powi_step: "(2 :: real) powi (k + 1) = 2 * 2 powi k"
  using power_int_add [of "2 :: real" 1 k] by (simp add: add.commute)

lemma two_powi_53: "(2 :: real) powi (e + 1) = 2 ^ 53 * 2 powi (e - 52)"
proof -
  have "53 + (e - 52) = e + 1" by simp
  with power_int_add [of "2 :: real" 53 "e - 52"] show ?thesis by simp
qed

lemma double_of_repr:
  "\<exists>m E. \<bar>m\<bar> < 2 ^ 53 \<and> - 1074 \<le> E \<and> double_of x = of_int m * 2 powi E"
proof -
  define e where "e = double_exponent x"
  define q :: real where "q = 2 powi (e - 52)"
  define n where "n = round_half_even (x / q)"
  have q: "0 < q" by (simp add: q_def)
  have val: "double_of x = of_int n * q"
    by (simp add: double_of_def Let_def n_def q_def e_def)
  have emin: "- 1022 \<le> e" unfolding e_def by (rule double_exponent_min)
  have q2: "2 powi (e - 51) = 2 * q"
    using two_powi_step [of "e - 52"] by (simp add: q_def)
  have "\<bar>x\<bar> < 2 powi (e + 1)" unfolding e_def by (rule double_exponent_upper)
  also have "(2 :: real) powi (e + 1) = 2 ^ 53 * q"
    unfolding q_def by (rule two_powi_53)
  finally have lt: "\<bar>x\<bar> / q < 2 ^ 53" using q by (simp add: field_simps)
  have aq: "\<bar>q\<bar> = q" using q by simp
  have "\<bar>x / q\<bar> = \<bar>x\<bar> / q" by (simp only: abs_divide aq)
  with lt have "\<bar>x / q\<bar> < 2 ^ 53" by (simp only:)
  then have "\<bar>x / q\<bar> < of_int (2 ^ 53)" by simp
  then have n: "\<bar>n\<bar> \<le> 2 ^ 53" unfolding n_def by (rule round_half_even_bound)
  show ?thesis
  proof (cases "\<bar>n\<bar> < 2 ^ 53")
    case True
    moreover have "- 1074 \<le> e - 52" using emin by simp
    moreover have "double_of x = of_int n * 2 powi (e - 52)" using val by (simp only: q_def)
    ultimately show ?thesis by blast
  next
    case False
    with n have "\<bar>n\<bar> = 2 ^ 53" by simp
    then consider "n = 2 ^ 53" | "n = - (2 ^ 53)" by linarith
    then show ?thesis
    proof cases
      case 1
      have "double_of x = of_int (2 ^ 52) * 2 powi (e - 51)"
        unfolding val 1 q2 by simp
      moreover have "\<bar>(2 :: int) ^ 52\<bar> < 2 ^ 53" by simp
      moreover have "- 1074 \<le> e - 51" using emin by simp
      ultimately show ?thesis by blast
    next
      case 2
      have "double_of x = of_int (- (2 ^ 52)) * 2 powi (e - 51)"
        unfolding val 2 q2 by simp
      moreover have "\<bar>- ((2 :: int) ^ 52)\<bar> < 2 ^ 53" by simp
      moreover have "- 1074 \<le> e - 51" using emin by simp
      ultimately show ?thesis by blast
    qed
  qed
qed

lemma double_of_idem: "double_of (double_of x) = double_of x"
proof -
  from double_of_repr [of x] obtain m E
    where "\<bar>m\<bar> < 2 ^ 53" "- 1074 \<le> E" "double_of x = of_int m * 2 powi E" by blast
  then show ?thesis by (simp only: double_of_fixed)
qed

lemma double_of_abs: "double_of \<bar>double_of x\<bar> = \<bar>double_of x\<bar>"
proof -
  from double_of_repr [of x] obtain m E
    where m: "\<bar>m\<bar> < 2 ^ 53" "- 1074 \<le> E" and v: "double_of x = of_int m * 2 powi E"
    by blast
  have "\<bar>double_of x\<bar> = of_int \<bar>m\<bar> * 2 powi E" by (simp add: v abs_mult)
  moreover have "double_of (of_int \<bar>m\<bar> * 2 powi E) = of_int \<bar>m\<bar> * 2 powi E"
    using m by (intro double_of_fixed) simp_all
  ultimately show ?thesis by (simp only:)
qed

text \<open>On floats the operations are the exact operations followed by one rounding.\<close>

lemma float_ops_on_floats:
  assumes "double_of a = a" and "double_of b = b"
  shows "float_sub a b = double_of (a - b)"
    and "float_div a b = double_of (a / b)"
    and "py_round2 a = double_of (of_int (round_half_even (a * 100)) / 100)"
  using assms by (simp_all add: float_sub_def float_div_def py_round2_def)

lemma upper_samples:
  "upper ''EURUSD'' = ''EURUSD''"
  "upper ''XAUJPY'' = ''XAUJPY''"
  "upper ''XAUUSD'' = ''XAUUSD''"
  "upper ''USDJPY'' = ''USDJPY''"
  "upper ''xauusd'' = ''XAUUSD''"
  "upper ''usdjpy'' = ''USDJPY''"
  "upper ''gold'' = ''GOLD''"
  "upper ''Gold'' = ''GOLD''"
  by code_simp+

lemma pip_value_samples:
  "get_pip_value ''EURUSD'' = 1 / 100"
  "get_pip_value ''XAUJPY'' = 1"
  "get_pip_value ''USDJPY'' = 1"
  "get_pip_value ''XAUUSD'' = 10"
  "get_pip_value ''xauusd'' = 1 / 100"
  "get_pip_value ''usdjpy'' = 1 / 100"
  "get_pip_value ''gold'' = 10"
  by (simp_all add: get_pip_value_def upper_samples)

lemma pip_value_positive: "0 < get_pip_value s"
  by (simp add: get_pip_value_def)

lemma double_of_pip_values:
  "double_of 1 = 1" "double_of 10 = 10" "double_of (1 / 100) = 5764607523034235 / 2 ^ 59"
  by code_simp+

lemma pip_value_range:
  "get_pip_value s = 1 \<or> get_pip_value s = 10 \<or> get_pip_value s = 1 / 100"
  by (simp add: get_pip_value_def)

lemma double_of_pip_value_lower: "1 / 128 \<le> double_of (get_pip_value s)"
proof -
  consider "get_pip_value s = 1" | "get_pip_value s = 10" | "get_pip_value s = 1 / 100"
    using pip_value_range [of s] by blast
  then show ?thesis
  proof cases
    case 1
    then have "double_of (get_pip_value s) = 1" by (simp only: double_of_pip_values)
    then show ?thesis by simp
  next
    case 2
    then have "double_of (get_pip_value s) = 10" by (simp only: double_of_pip_values)
    then show ?thesis by simp
  next
    case 3
    then have "double_of (get_pip_value s) = 5764607523034235 / 2 ^ 59"
      by (simp only: double_of_pip_values)
    then show ?thesis by simp
  qed
qed

lemma tiny_le_half: "(2 :: real) powi (- 1075) \<le> 1 / 2"
proof -
  have "(2 :: real) powi (- 1075) \<le> 2 powi (- 1)"
    by (intro power_int_increasing) simp_all
  then show ?thesis by simp
qed

lemma double_of_bound:
  assumes "\<bar>x\<bar> \<le> B" and "1 \<le> B"
  shows "\<bar>double_of x\<bar> \<le> 2 * B"
proof -
  have "\<bar>double_of x\<bar> \<le> \<bar>x\<bar> + \<bar>double_of x - x\<bar>" by linarith
  also have "\<dots> \<le> \<bar>x\<bar> + (\<bar>x\<bar> / 2 ^ 53 + 2 powi (- 1075))"
    using double_of_rel_error [of x] by linarith
  also have "\<bar>x\<bar> / 2 ^ 53 \<le> \<bar>x\<bar> / 2"
    by (intro divide_left_mono) simp_all
  finally have "\<bar>double_of x\<bar> \<le> \<bar>x\<bar> + \<bar>x\<bar> / 2 + 2 powi (- 1075)" by linarith
  with tiny_le_half assms show ?thesis by linarith
qed

text \<open>The distances of the scenarios, computed in binary64 arithmetic.\<close>

lemma distance_samples:
  "calculate_pip_distance (Some (112 / 100)) (Some (110 / 100)) ''EURUSD'' = Some 2"
  "calculate_pip_distance (Some (1105 / 1000)) (Some (11 / 10)) ''EURUSD'' = Some (1 / 2)"
  "calculate_pip_distance (Some 0) (Some (1 / 2)) ''EURUSD'' = Some 50"
  "calculate_pip_distance (Some (- 1)) (Some (11 / 10)) ''EURUSD'' = Some 210"
  by code_simp+

section \<open>Pip value and pip distance: the claims\<close>

text \<open>
  C1, on the code. Scenario B: signal BUY or SELL, entry 1.1200, reference price 1.1000,
  symbol EURUSD. The validator divides the distance 0.02 by the pip value 0.01, obtains
  2.0 and not 200.0, finds it within the limit and returns a valid result with the signal
  unchanged, no reason and no warning. The system text of the same file tells the model
  that for EURUSD 100 pips are 0.0100, under which this entry is 200 pips away.
\<close>

theorem scenario_B_accepted_by_code:
  "validate_entry_price (sample_response ''BUY'' (Some (112 / 100))) (Some (110 / 100)) ''EURUSD''
     = \<lparr>valid = True, original_signal = ''BUY'', final_signal = ''BUY'',
        violation_reason = None, v_entry_distance_pips = Some 2,
        v_current_price = Some (110 / 100), warnings = []\<rparr>
   \<and> validate_entry_price (sample_response ''SELL'' (Some (112 / 100))) (Some (110 / 100)) ''EURUSD''
     = \<lparr>valid = True, original_signal = ''SELL'', final_signal = ''SELL'',
        violation_reason = None, v_entry_distance_pips = Some 2,
        v_current_price = Some (110 / 100), warnings = []\<rparr>"
  by code_simp

text \<open>
  C2 as stated fails in three ways. "XAUJPY" contains "XAU" and its pip value is 1.00, not
  10.00, because the JPY test comes first. "gold" contains none of "JPY", "XAU", "GOLD" and
  its pip value is 10.00, not 0.01, because GOLD is looked for in the upper-cased symbol.
  And the distance is computed in binary64 arithmetic, which does not always give the exact
  quotient rounded to two decimals: for the float 4871318536945297 / 2^52 (written
  1.08165), the price 1.0 and EURUSD the code returns the float written 8.16, while the
  distance divided by 0.01 and rounded to two decimals is 8.17.
\<close>

theorem pip_value_table_counterexample:
  "py_in ''XAU'' ''XAUJPY'' \<and> get_pip_value ''XAUJPY'' \<noteq> 10
   \<and> \<not> py_in ''JPY'' ''gold'' \<and> \<not> py_in ''XAU'' ''gold'' \<and> \<not> py_in ''GOLD'' ''gold''
   \<and> get_pip_value ''gold'' \<noteq> 1 / 100
   \<and> double_of (108165 / 100000) = 4871318536945297 / 2 ^ 52
   \<and> calculate_pip_distance (Some (4871318536945297 / 2 ^ 52)) (Some 1) ''EURUSD''
       = Some (double_of (816 / 100))
   \<and> double_of (816 / 100) = 9187343239835812 / 2 ^ 50
   \<and> round_half_even (\<bar>4871318536945297 / 2 ^ 52 - 1\<bar> / get_pip_value ''EURUSD'' * 100) = 817"
proof -
  have "double_of (108165 / 100000) = 4871318536945297 / 2 ^ 52"
    by code_simp
  moreover have
    "calculate_pip_distance (Some (4871318536945297 / 2 ^ 52)) (Some 1) ''EURUSD''
       = Some (double_of (816 / 100))"
    by code_simp
  moreover have "double_of (816 / 100) = 9187343239835812 / 2 ^ 50"
    by code_simp
  moreover have
    "round_half_even (\<bar>4871318536945297 / 2 ^ 52 - 1\<bar> / get_pip_value ''EURUSD'' * 100) = 817"
    by code_simp
  ultimately show ?thesis
    by (simp only: pip_value_samples) simp
qed

text \<open>
  C2, amended. For every entry and reference price of magnitude at most \<open>2^1000\<close> and
  every symbol, the pip distance is \<^verbatim>\<open>round(abs(entry - price) / pipValue(symbol), 2)\<close>
  in binary64 arithmetic: the difference \<open>d\<close> and the quotient \<open>q\<close> are each the exact
  result rounded to the nearest float (relative error at most \<open>2^-53\<close>, or \<open>2^-1075\<close>
  absolutely), and the result is the float nearest to a multiple of 0.01 that is at most
  0.005 away from \<open>q\<close>. No intermediate value leaves the binary64 range. The pip value
  is positive; it is 1.00 when the symbol contains "JPY"; 10.00 when it does not and
  contains "XAU" or, in any letter case, "GOLD"; 0.01 otherwise.
\<close>

theorem pip_distance_formula:
  assumes "\<bar>e\<bar> \<le> 2 ^ 1000" and "\<bar>p\<bar> \<le> 2 ^ 1000"
    and "d = \<bar>float_sub e p\<bar>" and "q = float_div d (get_pip_value symb)"
  shows "calculate_pip_distance (Some e) (Some p) symb = Some (py_round2 q)
   \<and> \<bar>d - \<bar>double_of e - double_of p\<bar>\<bar>
        \<le> \<bar>double_of e - double_of p\<bar> / 2 ^ 53 + 2 powi (- 1075)
   \<and> \<bar>q - d / double_of (get_pip_value symb)\<bar>
        \<le> \<bar>d / double_of (get_pip_value symb)\<bar> / 2 ^ 53 + 2 powi (- 1075)
   \<and> (\<exists>n :: int. py_round2 q = double_of (of_int n / 100) \<and> \<bar>of_int n / 100 - q\<bar> \<le> 1 / 200)
   \<and> d < 2 ^ 1024 \<and> \<bar>q\<bar> < 2 ^ 1024 \<and> \<bar>py_round2 q\<bar> < 2 ^ 1024
   \<and> 0 < get_pip_value symb
   \<and> (py_in ''JPY'' symb \<longrightarrow> get_pip_value symb = 1)
   \<and> (\<not> py_in ''JPY'' symb \<and> (py_in ''XAU'' symb \<or> py_in ''GOLD'' (upper symb))
        \<longrightarrow> get_pip_value symb = 10)
   \<and> (\<not> py_in ''JPY'' symb \<and> \<not> py_in ''XAU'' symb \<and> \<not> py_in ''GOLD'' (upper symb)
        \<longrightarrow> get_pip_value symb = 1 / 100)"
proof -
  define z where "z = double_of e - double_of p"
  define pv where "pv = double_of (get_pip_value symb)"
  define n where "n = round_half_even (q * 100)"
  have d: "d = \<bar>double_of z\<bar>"
    by (simp add: assms(3) float_sub_def z_def)
  have dd: "double_of d = d"
    unfolding d by (rule double_of_abs)
  have q: "q = double_of (d / pv)"
    by (simp add: assms(4) float_div_def dd pv_def)
  have qq: "double_of q = q"
    unfolding q by (rule double_of_idem)
  have c1: "calculate_pip_distance (Some e) (Some p) symb = Some (py_round2 q)"
    by (simp add: calculate_pip_distance_def assms(3,4))
  have "\<bar>d - \<bar>z\<bar>\<bar> \<le> \<bar>double_of z - z\<bar>"
    unfolding d by (rule abs_triangle_ineq3)
  then have c2: "\<bar>d - \<bar>z\<bar>\<bar> \<le> \<bar>z\<bar> / 2 ^ 53 + 2 powi (- 1075)"
    using double_of_rel_error [of z] by linarith
  have c3: "\<bar>q - d / pv\<bar> \<le> \<bar>d / pv\<bar> / 2 ^ 53 + 2 powi (- 1075)"
    unfolding q by (rule double_of_rel_error)
  have r: "py_round2 q = double_of (of_int n / 100)"
    by (simp add: py_round2_def qq n_def)
  have "\<bar>of_int n - q * 100\<bar> \<le> 1 / 2"
    unfolding n_def by (rule round_half_even_close)
  then have close: "\<bar>of_int n / 100 - q\<bar> \<le> 1 / 200"
    by (simp add: field_simps abs_le_iff)
  have c4: "\<exists>n :: int. py_round2 q = double_of (of_int n / 100) \<and> \<bar>of_int n / 100 - q\<bar> \<le> 1 / 200"
    using r close by blast
  have one: "(1 :: real) \<le> 2 ^ 1000" by (rule one_le_power) simp
  have "\<bar>double_of e\<bar> \<le> 2 * 2 ^ 1000" "\<bar>double_of p\<bar> \<le> 2 * 2 ^ 1000"
    using assms(1,2) one by (intro double_of_bound; simp)+
  then have z: "\<bar>z\<bar> \<le> 2 ^ 1002" unfolding z_def by (simp add: abs_le_iff)
  have one2: "(1 :: real) \<le> 2 ^ 1002" by (rule one_le_power) simp
  have dB: "d \<le> 2 ^ 1003"
    unfolding d using double_of_bound [OF z one2] by simp
  have d0: "0 \<le> d" unfolding d by simp
  have pv: "1 / 128 \<le> pv" unfolding pv_def by (rule double_of_pip_value_lower)
  then have pv0: "0 < pv" by simp
  have "d / pv \<le> d / (1 / 128)"
    using pv d0 by (intro divide_left_mono) simp_all
  then have "d / pv \<le> d * 128" by simp
  also have "\<dots> \<le> 2 ^ 1003 * 2 ^ 7" using dB by simp
  finally have quo: "\<bar>d / pv\<bar> \<le> 2 ^ 1010" using d0 pv0 by (simp flip: power_add)
  have one3: "(1 :: real) \<le> 2 ^ 1010" by (rule one_le_power) simp
  have qB: "\<bar>q\<bar> \<le> 2 ^ 1011"
    unfolding q using double_of_bound [OF quo one3] by simp
  have "\<bar>of_int n / 100\<bar> \<le> \<bar>q\<bar> + 1 / 200" using close by linarith
  also have "\<dots> \<le> 2 ^ 1011 + 2 ^ 1011" using qB one_le_power [of "2 :: real" 1011] by simp
  finally have nB: "\<bar>of_int n / 100\<bar> \<le> (2 :: real) ^ 1012" by simp
  have one4: "(1 :: real) \<le> 2 ^ 1012" by (rule one_le_power) simp
  have rB: "\<bar>py_round2 q\<bar> \<le> 2 ^ 1013"
    unfolding r using double_of_bound [OF nB one4] by simp
  have lt: "(2 :: real) ^ 1003 < 2 ^ 1024" "(2 :: real) ^ 1011 < 2 ^ 1024" "(2 :: real) ^ 1013 < 2 ^ 1024"
    by (rule power_strict_increasing; simp)+
  have c5: "d < 2 ^ 1024" "\<bar>q\<bar> < 2 ^ 1024" "\<bar>py_round2 q\<bar> < 2 ^ 1024"
    using dB qB rB lt by linarith+
  have c6: "0 < get_pip_value symb"
    by (rule pip_value_positive)
  have c7: "py_in ''JPY'' symb \<longrightarrow> get_pip_value symb = 1"
    by (simp add: get_pip_value_def)
  have c8: "\<not> py_in ''JPY'' symb \<and> (py_in ''XAU'' symb \<or> py_in ''GOLD'' (upper symb))
        \<longrightarrow> get_pip_value symb = 10"
    by (simp add: get_pip_value_def)
  have c9: "\<not> py_in ''JPY'' symb \<and> \<not> py_in ''XAU'' symb \<and> \<not> py_in ''GOLD'' (upper symb)
        \<longrightarrow> get_pip_value symb = 1 / 100"
    by (simp add: get_pip_value_def)
  from c1 c2 c3 c4 c5 c6 c7 c8 c9 show ?thesis
    unfolding z_def pv_def by blast
qed

text \<open>
  C2, the amended statement at USDJPY, XAUUSD and EURUSD, one symbol for each row of the
  table, and at Scenario A's prices, where the distance is 0.5.
\<close>

theorem pip_distance_formula_witness:
  "\<bar>1105 / 1000 :: real\<bar> \<le> 2 ^ 1000 \<and> \<bar>11 / 10 :: real\<bar> \<le> 2 ^ 1000
   \<and> py_in ''JPY'' ''USDJPY'' \<and> get_pip_value ''USDJPY'' = 1
   \<and> \<not> py_in ''JPY'' ''XAUUSD'' \<and> py_in ''XAU'' ''XAUUSD'' \<and> get_pip_value ''XAUUSD'' = 10
   \<and> \<not> py_in ''JPY'' ''EURUSD'' \<and> \<not> py_in ''XAU'' ''EURUSD''
   \<and> \<not> py_in ''GOLD'' (upper ''EURUSD'')
   \<and> get_pip_value ''EURUSD'' = 1 / 100
   \<and> calculate_pip_distance (Some (1105 / 1000)) (Some (11 / 10)) ''EURUSD'' = Some (1 / 2)"
proof -
  have r1: "\<bar>1105 / 1000 :: real\<bar> \<le> 2 ^ 1000" and r2: "\<bar>11 / 10 :: real\<bar> \<le> 2 ^ 1000"
    and r0: "\<bar>0 :: real\<bar> \<le> 2 ^ 1000"
    by simp_all
  note eur = pip_distance_formula [OF r1 r2 refl refl, of "''EURUSD''"]
  note jpn = pip_distance_formula [OF r0 r0 refl refl, of "''USDJPY''"]
  note gld = pip_distance_formula [OF r0 r0 refl refl, of "''XAUUSD''"]
  have jpy: "py_in ''JPY'' ''USDJPY''" by simp
  have xau: "\<not> py_in ''JPY'' ''XAUUSD'' \<and> py_in ''XAU'' ''XAUUSD''" by simp
  have oth: "\<not> py_in ''JPY'' ''EURUSD'' \<and> \<not> py_in ''XAU'' ''EURUSD''
             \<and> \<not> py_in ''GOLD'' (upper ''EURUSD'')"
    by (simp add: upper_samples)
  have v1: "get_pip_value ''USDJPY'' = 1"
    using jpn jpy by blast
  have v2: "get_pip_value ''XAUUSD'' = 10"
    using gld xau by blast
  have v3: "get_pip_value ''EURUSD'' = 1 / 100"
    using eur oth by blast
  have "calculate_pip_distance (Some (1105 / 1000)) (Some (11 / 10)) ''EURUSD''
          = Some (py_round2 (float_div \<bar>float_sub (1105 / 1000) (11 / 10)\<bar>
                     (get_pip_value ''EURUSD'')))"
    using eur by blast
  also have "py_round2 (float_div \<bar>float_sub (1105 / 1000) (11 / 10)\<bar>
                     (get_pip_value ''EURUSD'')) = 1 / 2"
    by code_simp
  finally show ?thesis
    using r1 r2 jpy xau oth v1 v2 v3 by blast
qed

text \<open>
  C10. The JPY test precedes the XAU and GOLD tests: every symbol containing "JPY" has pip
  value 1.00, "XAUJPY" among them. "JPY" and "XAU" are matched as written, so "usdjpy" and
  "xauusd" fall through to 0.01; "GOLD" is matched in the upper-cased symbol, so "gold" has
  10.00, as has every symbol without "JPY" that contains "GOLD" in some letter case. The
  pip value is always one of 1.00, 10.00 and 0.01.
\<close>

theorem pip_value_precedence:
  "(py_in ''JPY'' s \<longrightarrow> get_pip_value s = 1)
   \<and> get_pip_value ''XAUJPY'' = 1
   \<and> get_pip_value ''xauusd'' = 1 / 100
   \<and> get_pip_value ''usdjpy'' = 1 / 100
   \<and> get_pip_value ''gold'' = 10
   \<and> (\<not> py_in ''JPY'' s \<and> py_in ''GOLD'' (upper s) \<longrightarrow> get_pip_value s = 10)
   \<and> get_pip_value s \<in> {1, 10, 1 / 100}"
  by (simp add: pip_value_samples) (simp add: get_pip_value_def)

text \<open>C10 at "XAUJPY", which contains both "XAU" and "JPY", and at "Gold".\<close>

theorem pip_value_precedence_witness:
  "py_in ''JPY'' ''XAUJPY'' \<and> py_in ''XAU'' ''XAUJPY'' \<and> get_pip_value ''XAUJPY'' = 1
   \<and> \<not> py_in ''JPY'' ''Gold'' \<and> py_in ''GOLD'' (upper ''Gold'') \<and> get_pip_value ''Gold'' = 10"
  using pip_value_precedence [of "''XAUJPY''"] pip_value_precedence [of "''Gold''"]
  by (simp add: upper_samples)

section \<open>Symbol format: the claim\<close>

lemma format_symbol_six:
  "length s = 6 \<Longrightarrow> format_symbol_for_twelvedata s = take 3 s @ ''/'' @ drop 3 s"
  by (auto simp: format_symbol_for_twelvedata_def)

lemma format_symbol_samples:
  "format_symbol_for_twelvedata ''EURUSD'' = ''EUR/USD''"
  "format_symbol_for_twelvedata ''XAUUSD'' = ''XAU/USD''"
  "format_symbol_for_twelvedata ''EUR/USD'' = ''EUR/USD''"
  by (simp_all add: format_symbol_for_twelvedata_def)

lemma format_symbol_slashed:
  "py_in ''/'' s \<Longrightarrow> length s \<noteq> 6 \<Longrightarrow> format_symbol_for_twelvedata s = s"
  by (auto simp: format_symbol_for_twelvedata_def)

text \<open>
  C8, on the code. Every string of six characters is cut into three, a slash and three, and
  "XAUUSD" and "EUR/USD" come out as the claim says (lemmas above). A slashed symbol of
  exactly six characters, such as "OP/USD", meets the length test before the slash test and
  is cut as well: it does not pass through unchanged, though the comment on the slash test
  reads "If already has /, return as is".
\<close>

theorem format_symbol_short_slashed:
  "py_in ''/'' ''OP/USD'' \<and> format_symbol_for_twelvedata ''OP/USD'' = ''OP//USD''"
  by (simp add: format_symbol_for_twelvedata_def)

section \<open>The entry validator: the claims\<close>

lemma validate_HOLD:
  "signal r = ''HOLD'' \<Longrightarrow>
   validate_entry_price r p s
     = \<lparr>valid = True, original_signal = ''HOLD'', final_signal = ''HOLD'',
        violation_reason = None, v_entry_distance_pips = None,
        v_current_price = p, warnings = []\<rparr>"
  by (simp add: validate_entry_price_def)

lemma validate_original: "original_signal (validate_entry_price r p s) = signal r"
  by (simp add: validate_entry_price_def Let_def split: option.splits)

lemma validate_invalid_final:
  "\<not> valid (validate_entry_price r p s) \<Longrightarrow>
   final_signal (validate_entry_price r p s) = ''HOLD''"
  by (auto simp: validate_entry_price_def Let_def split: option.splits if_splits)

lemma validate_invalid_not_HOLD:
  "\<not> valid (validate_entry_price r p s) \<Longrightarrow> signal r \<noteq> ''HOLD''"
  by (auto simp: validate_entry_price_def)

lemma ensure_signal: "signal (ensure_required_fields args data) = signal data"
  by (simp add: ensure_required_fields_def)

lemma ensure_distance:
  "entry_distance_pips (ensure_required_fields args data)
     = calculate_pip_distance (entry data) (a_current_price args) (a_symbol args)"
  by (simp add: ensure_required_fields_def)

lemmas record_ext = signal_record.defs persisted_record.defs

text \<open>
  C3 as stated fails: a HOLD response with entry 1.1050, processed with reference price
  1.1000 for EURUSD, is saved with \<open>entry_distance_pips = 0.5\<close>. The requester computes the
  field whatever the signal, and the validator's null goes into the attached validation,
  not into the record's field.
\<close>

theorem hold_record_distance_counterexample:
  "signal (sample_response ''HOLD'' (Some (1105 / 1000))) = ''HOLD''
   \<and> entry_distance_pips
        (process_response (sample_args (Some (11 / 10)))
           (sample_response ''HOLD'' (Some (1105 / 1000)))) = Some (1 / 2)"
  by code_simp

text \<open>
  C3, amended. For every response whose signal is HOLD the validator returns a valid
  result with a null \<open>entry_distance_pips\<close> and final signal HOLD, for any reference price and
  symbol; after field filling, validation and write-back the attached validation is that
  result and the signal is still HOLD. The record's own \<open>entry_distance_pips\<close> is the
  distance the requester computed from entry and reference price: it is null exactly when
  the entry or the reference price is.
\<close>

theorem hold_is_never_invalid:
  assumes "signal data = ''HOLD''"
  shows "valid (validate_entry_price data p s)
    \<and> v_entry_distance_pips (validate_entry_price data p s) = None
    \<and> final_signal (validate_entry_price data p s) = ''HOLD''
    \<and> valid (r_validation (process_response args data))
    \<and> v_entry_distance_pips (r_validation (process_response args data)) = None
    \<and> signal (process_response args data) = ''HOLD''
    \<and> entry_distance_pips (process_response args data)
         = calculate_pip_distance (entry data) (a_current_price args) (a_symbol args)
    \<and> (entry_distance_pips (process_response args data) = None
         \<longleftrightarrow> entry data = None \<or> a_current_price args = None)"
proof -
  have v: "validate_entry_price data p s
     = \<lparr>valid = True, original_signal = ''HOLD'', final_signal = ''HOLD'',
        violation_reason = None, v_entry_distance_pips = None,
        v_current_price = p, warnings = []\<rparr>" for p s
    using assms by (rule validate_HOLD)
  have h: "signal (ensure_required_fields args data) = ''HOLD''"
    using assms by (simp add: ensure_signal)
  have pr: "process_response args data
     = signal_record.extend (ensure_required_fields args data)
         (persisted_record.fields
            (validate_entry_price (ensure_required_fields args data)
               (a_current_price args) (a_symbol args)) None)"
    by (simp add: process_response_def apply_validation_def Let_def validate_HOLD [OF h])
  have d: "entry_distance_pips (process_response args data)
         = calculate_pip_distance (entry data) (a_current_price args) (a_symbol args)"
    by (simp add: pr record_ext ensure_distance)
  have n: "calculate_pip_distance (entry data) (a_current_price args) (a_symbol args) = None
         \<longleftrightarrow> entry data = None \<or> a_current_price args = None"
    by (simp add: calculate_pip_distance_def split: option.splits)
  show ?thesis
    by (simp add: v d n) (simp add: pr record_ext validate_HOLD [OF h] h)
qed

text \<open>
  C3, the amended statement on the HOLD response of the counterexample, with the reference
  price present and absent.
\<close>

theorem hold_is_never_invalid_witness:
  "signal (sample_response ''HOLD'' (Some (1105 / 1000))) = ''HOLD''
   \<and> valid (r_validation (process_response (sample_args (Some (11 / 10)))
        (sample_response ''HOLD'' (Some (1105 / 1000)))))
   \<and> v_entry_distance_pips (r_validation (process_response (sample_args (Some (11 / 10)))
        (sample_response ''HOLD'' (Some (1105 / 1000))))) = None
   \<and> entry_distance_pips (process_response (sample_args None)
        (sample_response ''HOLD'' (Some (1105 / 1000)))) = None"
proof -
  have h: "signal (sample_response ''HOLD'' (Some (1105 / 1000))) = ''HOLD''"
    by (simp add: sample_response_def)
  have a: "a_current_price (sample_args None) = None"
    by (simp add: sample_args_def)
  note with_price =
    hold_is_never_invalid [OF h, of None "''EURUSD''" "sample_args (Some (11 / 10))"]
  note without_price =
    hold_is_never_invalid [OF h, of None "''EURUSD''" "sample_args None"]
  have "entry_distance_pips (process_response (sample_args None)
        (sample_response ''HOLD'' (Some (1105 / 1000)))) = None"
    using without_price a by blast
  then show ?thesis
    using with_price h by blast
qed

text \<open>
  C4. For every record, reference price and symbol: when the validator returns
  \<open>valid = False\<close>, the final signal is "HOLD", and it differs from the original signal
  whenever that was not "HOLD" (which is always so for an invalid result); the original
  signal of the result is the record's signal as received. The validator returns a new
  result and leaves the record as it is.
\<close>

theorem invalid_means_HOLD:
  "(\<not> valid (validate_entry_price r p s) \<longrightarrow>
       final_signal (validate_entry_price r p s) = ''HOLD''
     \<and> (original_signal (validate_entry_price r p s) \<noteq> ''HOLD'' \<longrightarrow>
          final_signal (validate_entry_price r p s)
            \<noteq> original_signal (validate_entry_price r p s))
     \<and> original_signal (validate_entry_price r p s) \<noteq> ''HOLD'')
   \<and> original_signal (validate_entry_price r p s) = signal r"
  using validate_original [of r p s] validate_invalid_final [of r p s]
    validate_invalid_not_HOLD [of r p s]
  by auto

text \<open>C4 on a BUY response without entry, which is invalid (Scenario C).\<close>

theorem invalid_means_HOLD_witness:
  "\<not> valid (validate_entry_price (sample_response ''BUY'' None) (Some (11 / 10)) ''EURUSD'')
   \<and> final_signal (validate_entry_price (sample_response ''BUY'' None) (Some (11 / 10)) ''EURUSD'')
       = ''HOLD''
   \<and> original_signal
        (validate_entry_price (sample_response ''BUY'' None) (Some (11 / 10)) ''EURUSD'')
       = ''BUY''"
proof -
  have inv:
    "\<not> valid (validate_entry_price (sample_response ''BUY'' None) (Some (11 / 10)) ''EURUSD'')"
    by (simp add: validate_entry_price_def sample_response_def)
  have sg: "signal (sample_response ''BUY'' None) = ''BUY''"
    by (simp add: sample_response_def)
  show ?thesis
    using invalid_means_HOLD [of "sample_response ''BUY'' None" "Some (11 / 10)" "''EURUSD''"]
      inv sg
    by simp
qed

text \<open>
  C5 as stated fails in its last part: without a reference price the other checks do not
  apply. A BUY response with a null entry, and one with entry 0, are both valid and keep
  their signal when the reference price is absent; with the reference price 0.5 the same
  responses are invalid, by the null-entry check and by the non-positive-entry check.
\<close>

theorem no_price_skips_entry_checks_counterexample:
  "validate_entry_price (sample_response ''BUY'' None) None ''EURUSD''
     = \<lparr>valid = True, original_signal = ''BUY'', final_signal = ''BUY'',
        violation_reason = None, v_entry_distance_pips = None,
        v_current_price = None, warnings = [NoCurrentPrice]\<rparr>
   \<and> validate_entry_price (sample_response ''BUY'' None) (Some (1 / 2)) ''EURUSD''
     = \<lparr>valid = False, original_signal = ''BUY'', final_signal = ''HOLD'',
        violation_reason = Some NullEntryReason, v_entry_distance_pips = None,
        v_current_price = Some (1 / 2), warnings = [NullEntryWarning]\<rparr>
   \<and> validate_entry_price (sample_response ''BUY'' (Some 0)) None ''EURUSD''
     = \<lparr>valid = True, original_signal = ''BUY'', final_signal = ''BUY'',
        violation_reason = None, v_entry_distance_pips = None,
        v_current_price = None, warnings = [NoCurrentPrice]\<rparr>
   \<and> validate_entry_price (sample_response ''BUY'' (Some 0)) (Some (1 / 2)) ''EURUSD''
     = \<lparr>valid = False, original_signal = ''BUY'', final_signal = ''HOLD'',
        violation_reason = Some (NonPositiveReason 0), v_entry_distance_pips = Some 50,
        v_current_price = Some (1 / 2), warnings = [NonPositiveWarning]\<rparr>"
  by code_simp

text \<open>
  C5, amended. For every record with a non-HOLD signal, when the reference price is absent
  the validator returns a valid result with a null \<open>entry_distance_pips\<close>, exactly one
  warning, no reason and the signal unchanged, whatever the entry is: the branch is
  terminal, and neither the distance check nor the null-entry and non-positive-entry
  checks are run.
\<close>

theorem no_price_is_terminal:
  "signal r \<noteq> ''HOLD'' \<Longrightarrow>
   validate_entry_price r None s
     = \<lparr>valid = True, original_signal = signal r, final_signal = signal r,
        violation_reason = None, v_entry_distance_pips = None,
        v_current_price = None, warnings = [NoCurrentPrice]\<rparr>"
  by (simp add: validate_entry_price_def)

text \<open>C5, the amended statement on Scenario D: SELL, entry 1.0900, no reference price.\<close>

theorem no_price_is_terminal_witness:
  "signal (sample_response ''SELL'' (Some (109 / 100))) \<noteq> ''HOLD''
   \<and> validate_entry_price (sample_response ''SELL'' (Some (109 / 100))) None ''EURUSD''
     = \<lparr>valid = True, original_signal = ''SELL'', final_signal = ''SELL'',
        violation_reason = None, v_entry_distance_pips = None,
        v_current_price = None, warnings = [NoCurrentPrice]\<rparr>"
proof -
  have sg: "signal (sample_response ''SELL'' (Some (109 / 100))) = ''SELL''"
    by (simp add: sample_response_def)
  have ne: "signal (sample_response ''SELL'' (Some (109 / 100))) \<noteq> ''HOLD''"
    by (simp add: sg)
  show ?thesis
    using no_price_is_terminal [OF ne, of "''EURUSD''"] ne by (simp add: sg)
qed

text \<open>
  C9. For every record with a non-HOLD signal, a reference price and an entry \<open>e \<le> 0\<close>
  whose pip distance \<open>d\<close> exceeds 100, the result is invalid with final signal HOLD, the
  reason is the message of the non-positive-entry check, which runs last, and the warnings
  are the warning of the distance check followed by that of the non-positive-entry check.
\<close>

theorem last_check_sets_reason:
  assumes "signal r \<noteq> ''HOLD''" and "entry r = Some e" and "e \<le> 0"
    and "calculate_pip_distance (Some e) (Some p) s = Some d" and "100 < d"
  shows "validate_entry_price r (Some p) s
     = \<lparr>valid = False, original_signal = signal r, final_signal = ''HOLD'',
        violation_reason = Some (NonPositiveReason e), v_entry_distance_pips = Some d,
        v_current_price = Some p, warnings = [TooFarWarning d, NonPositiveWarning]\<rparr>"
  using assms by (simp add: validate_entry_price_def)

text \<open>C9 on a BUY response with entry -1 against the reference price 1.1: 210 pips.\<close>

theorem last_check_sets_reason_witness:
  "signal (sample_response ''BUY'' (Some (- 1))) \<noteq> ''HOLD''
   \<and> entry (sample_response ''BUY'' (Some (- 1))) = Some (- 1)
   \<and> (- 1 :: real) \<le> 0
   \<and> calculate_pip_distance (Some (- 1)) (Some (11 / 10)) ''EURUSD'' = Some 210
   \<and> (100 :: real) < 210
   \<and> validate_entry_price (sample_response ''BUY'' (Some (- 1))) (Some (11 / 10)) ''EURUSD''
     = \<lparr>valid = False, original_signal = ''BUY'', final_signal = ''HOLD'',
        violation_reason = Some (NonPositiveReason (- 1)), v_entry_distance_pips = Some 210,
        v_current_price = Some (11 / 10), warnings = [TooFarWarning 210, NonPositiveWarning]\<rparr>"
proof -
  have sg: "signal (sample_response ''BUY'' (Some (- 1))) = ''BUY''"
    and en: "entry (sample_response ''BUY'' (Some (- 1))) = Some (- 1)"
    by (simp_all add: sample_response_def)
  have ne: "signal (sample_response ''BUY'' (Some (- 1))) \<noteq> ''HOLD''"
    by (simp add: sg)
  have d: "calculate_pip_distance (Some (- 1)) (Some (11 / 10)) ''EURUSD'' = Some 210"
    by (rule distance_samples)
  show ?thesis
    using last_check_sets_reason [OF ne en _ d] ne en d by (simp add: sg)
qed

section \<open>The signal requester: the claims\<close>

lemma ensure_required_fields_eq:
  "ensure_required_fields args data =
     \<lparr>symbol = (if symbol data = [] then a_symbol args else symbol data),
      timeframe = (if timeframe data = [] then a_timeframe args else timeframe data),
      timestamp_utc =
        (if timestamp_utc data = [] then a_timestamp_utc args else timestamp_utc data),
      signal = signal data, confidence = confidence data, entry = entry data,
      stop = stop data, targets = targets data, rationale = rationale data,
      invalidation = invalidation data,
      prompt_name = a_prompt_name args,
      raw_notes = (if raw_notes data = [] then a_notes args else raw_notes data),
      current_price = a_current_price args,
      entry_distance_pips =
        calculate_pip_distance (entry data) (a_current_price args) (a_symbol args)\<rparr>"
  by (cases data) (simp add: ensure_required_fields_def py_or_def)

lemma loop_returns_filled:
  "fst (attempt_loop args respond jitter attempt le slept) = Inr r \<Longrightarrow>
   \<exists>k data. attempt \<le> k \<and> k < max_retries args \<and> respond k = Inr data
     \<and> r = ensure_required_fields args data"
proof (induction args respond jitter attempt le slept rule: attempt_loop.induct)
  case (1 args respond jitter attempt last_err slept)
  show ?case
  proof (cases "attempt < max_retries args")
    case False
    with "1.prems" show ?thesis by (simp add: attempt_loop.simps)
  next
    case True
    show ?thesis
    proof (cases "respond attempt")
      case (Inr data)
      with True "1.prems" have "r = ensure_required_fields args data"
        by (simp add: attempt_loop.simps)
      with True Inr show ?thesis by auto
    next
      case (Inl e)
      with True "1.prems"
      have "fst (attempt_loop args respond jitter (attempt + 1) (Some e)
               (if attempt < max_retries args - 1
                then slept @ [backoff_sleep attempt (jitter attempt)] else slept)) = Inr r"
        by (simp add: attempt_loop.simps)
      from "1.IH" [OF True Inl this]
      obtain k data where "attempt + 1 \<le> k" "k < max_retries args" "respond k = Inr data"
        "r = ensure_required_fields args data" by blast
      then show ?thesis by (intro exI [of _ k] exI [of _ data]) simp
    qed
  qed
qed

lemma loop_success:
  assumes "attempt \<le> k" and "k < max_retries args"
    and "\<forall>i. attempt \<le> i \<and> i < k \<longrightarrow> isl (respond i)" and "respond k = Inr d"
  shows "attempt_loop args respond jitter attempt le slept
    = (Inr (ensure_required_fields args d),
       slept @ map (\<lambda>a. backoff_sleep a (jitter a)) [attempt..k - 1])"
  using assms
proof (induction "nat (k - attempt)" arbitrary: attempt le slept)
  case 0
  then have "attempt = k" by simp
  with 0 show ?case by (simp add: attempt_loop.simps)
next
  case (Suc n)
  then have lt: "attempt < k" by linarith
  with Suc.prems have "isl (respond attempt)" by simp
  then obtain e where e: "respond attempt = Inl e" by (cases "respond attempt") auto
  have n: "n = nat (k - (attempt + 1))" using Suc.hyps(2) by linarith
  have rest: "attempt_loop args respond jitter (attempt + 1) (Some e)
      (slept @ [backoff_sleep attempt (jitter attempt)])
    = (Inr (ensure_required_fields args d),
       (slept @ [backoff_sleep attempt (jitter attempt)])
         @ map (\<lambda>a. backoff_sleep a (jitter a)) [attempt + 1..k - 1])"
    using Suc.prems lt by (intro Suc.hyps(1) [OF n]) auto
  have up: "[attempt..k - 1] = attempt # [attempt + 1..k - 1]"
    using lt by (simp add: upto_rec1)
  have "attempt_loop args respond jitter attempt le slept
    = attempt_loop args respond jitter (attempt + 1) (Some e)
        (slept @ [backoff_sleep attempt (jitter attempt)])"
    using lt Suc.prems(2) e by (subst attempt_loop.simps) simp
  with rest up show ?case by simp
qed

lemma loop_exhausted:
  assumes "attempt < max_retries args"
    and "\<forall>i. attempt \<le> i \<and> i < max_retries args \<longrightarrow> respond i = Inl (err i)"
  shows "attempt_loop args respond jitter attempt le slept
    = (Inl (RuntimeError (max_retries args) (Some (err (max_retries args - 1)))),
       slept @ map (\<lambda>a. backoff_sleep a (jitter a)) [attempt..max_retries args - 2])"
  using assms
proof (induction "nat (max_retries args - 1 - attempt)" arbitrary: attempt le slept)
  case 0
  then have a: "attempt = max_retries args - 1" by simp
  have e: "respond attempt = Inl (err attempt)" using 0 by simp
  have "attempt_loop args respond jitter attempt le slept
    = attempt_loop args respond jitter (attempt + 1) (Some (err attempt)) slept"
    using a e by (subst attempt_loop.simps) simp
  also have "\<dots> = (Inl (RuntimeError (max_retries args) (Some (err attempt))), slept)"
    using a by (subst attempt_loop.simps) simp
  finally show ?case using a by simp
next
  case (Suc n)
  then have lt: "attempt < max_retries args - 1" by linarith
  have e: "respond attempt = Inl (err attempt)" using Suc.prems by simp
  have n: "n = nat (max_retries args - 1 - (attempt + 1))" using Suc.hyps(2) by linarith
  have rest: "attempt_loop args respond jitter (attempt + 1) (Some (err attempt))
      (slept @ [backoff_sleep attempt (jitter attempt)])
    = (Inl (RuntimeError (max_retries args) (Some (err (max_retries args - 1)))),
       (slept @ [backoff_sleep attempt (jitter attempt)])
         @ map (\<lambda>a. backoff_sleep a (jitter a)) [attempt + 1..max_retries args - 2])"
    using Suc.prems lt by (intro Suc.hyps(1) [OF n]) auto
  have up: "[attempt..max_retries args - 2] = attempt # [attempt + 1..max_retries args - 2]"
    using lt by (simp add: upto_rec1)
  have "attempt_loop args respond jitter attempt le slept
    = attempt_loop args respond jitter (attempt + 1) (Some (err attempt))
        (slept @ [backoff_sleep attempt (jitter attempt)])"
    using lt e by (subst attempt_loop.simps) simp
  with rest up show ?case by simp
qed

lemma backoff_sleep_bounds:
  assumes "0 \<le> j" and "j \<le> 7 / 10"
  shows "1 \<le> backoff_sleep a j \<and> backoff_sleep a j \<le> 307 / 10"
proof -
  have "(1 :: int) \<le> 2 ^ nat a" by simp
  then have "1 \<le> min (2 ^ nat a) (30 :: int)" "min (2 ^ nat a) (30 :: int) \<le> 30"
    by simp_all
  then have "1 \<le> real_of_int (min (2 ^ nat a) 30)" "real_of_int (min (2 ^ nat a) 30) \<le> 30"
    by linarith+
  with assms show ?thesis
    unfolding backoff_sleep_def Let_def by linarith
qed

lemma loop_sleeps_pred:
  "\<forall>a. P (backoff_sleep a (jitter a)) \<Longrightarrow> \<forall>x \<in> set slept. P x \<Longrightarrow>
   \<forall>x \<in> set (snd (attempt_loop args respond jitter attempt le slept)). P x"
proof (induction args respond jitter attempt le slept rule: attempt_loop.induct)
  case (1 args respond jitter attempt last_err slept)
  show ?case
  proof (cases "attempt < max_retries args")
    case False
    with "1.prems" show ?thesis by (simp add: attempt_loop.simps)
  next
    case True
    show ?thesis
    proof (cases "respond attempt")
      case (Inr data)
      with True "1.prems" show ?thesis by (simp add: attempt_loop.simps)
    next
      case (Inl e)
      have b: "\<forall>x \<in> set (if attempt < max_retries args - 1
                then slept @ [backoff_sleep attempt (jitter attempt)] else slept). P x"
        using "1.prems" by auto
      have "attempt_loop args respond jitter attempt last_err slept
        = attempt_loop args respond jitter (attempt + 1) (Some e)
               (if attempt < max_retries args - 1
                then slept @ [backoff_sleep attempt (jitter attempt)] else slept)"
        using True Inl by (subst attempt_loop.simps) simp
      with "1.IH" [OF True Inl "1.prems"(1) b] show ?thesis by simp
    qed
  qed
qed

text \<open>
  C6. With a budget of five attempts and a jitter between 0 and 0.7: if attempt \<open>k\<close>
  (counted from 0, below 5) is the first that brings a parsed response, the call returns
  that response with its fields filled, having slept \<open>min(2^a, 30) + jitter\<close> seconds after
  each failed attempt \<open>a < k\<close>; if all five attempts fail, the call raises the terminal
  failure carrying the error of the fifth attempt, having slept after the first four
  failures only. Every sleep lies between 1 and 30.7 seconds.
\<close>

theorem five_attempt_budget:
  assumes "max_retries args = 5" and "\<forall>a. 0 \<le> jitter a \<and> jitter a \<le> 7 / 10"
  shows "(0 \<le> k \<and> k < 5 \<and> (\<forall>i. 0 \<le> i \<and> i < k \<longrightarrow> isl (respond i)) \<and> respond k = Inr d
      \<longrightarrow> call_model_structured args respond jitter
            = (Inr (ensure_required_fields args d),
               map (\<lambda>a. of_int (min (2 ^ nat a) 30) + jitter a) [0..k - 1]))
    \<and> ((\<forall>i. 0 \<le> i \<and> i < 5 \<longrightarrow> respond i = Inl (err i))
      \<longrightarrow> call_model_structured args respond jitter
            = (Inl (RuntimeError 5 (Some (err 4))),
               map (\<lambda>a. of_int (min (2 ^ nat a) 30) + jitter a) [0..3]))
    \<and> (\<forall>x \<in> set (snd (call_model_structured args respond jitter)). 1 \<le> x \<and> x \<le> 307 / 10)"
proof -
  have bs: "(\<lambda>a. backoff_sleep a (jitter a)) = (\<lambda>a. of_int (min (2 ^ nat a) 30) + jitter a)"
    by (simp add: backoff_sleep_def)
  have first: "call_model_structured args respond jitter
            = (Inr (ensure_required_fields args d),
               map (\<lambda>a. of_int (min (2 ^ nat a) 30) + jitter a) [0..k - 1])"
    if "0 \<le> k" "k < 5" "\<forall>i. 0 \<le> i \<and> i < k \<longrightarrow> isl (respond i)" "respond k = Inr d"
    using loop_success [of 0 k args respond d jitter None "[]"] that assms(1)
    by (simp add: call_model_structured_def bs)
  have none: "call_model_structured args respond jitter
            = (Inl (RuntimeError 5 (Some (err 4))),
               map (\<lambda>a. of_int (min (2 ^ nat a) 30) + jitter a) [0..3])"
    if "\<forall>i. 0 \<le> i \<and> i < 5 \<longrightarrow> respond i = Inl (err i)"
    using loop_exhausted [of 0 args respond err jitter None "[]"] that assms(1)
    by (simp add: call_model_structured_def bs)
  have "\<forall>a. 1 \<le> backoff_sleep a (jitter a) \<and> backoff_sleep a (jitter a) \<le> 307 / 10"
    using assms(2) backoff_sleep_bounds by blast
  then have bound:
    "\<forall>x \<in> set (snd (call_model_structured args respond jitter)). 1 \<le> x \<and> x \<le> 307 / 10"
    unfolding call_model_structured_def
    by (rule loop_sleeps_pred) simp
  from first none bound show ?thesis by blast
qed

text \<open>
  C6 on Scenario E with jitter 0.5: four malformed responses and a fifth valid one, then
  five failures. The sleeps are 1.5, 2.5, 4.5 and 8.5 seconds in both runs.
\<close>

theorem five_attempt_budget_witness:
  "call_model_structured (sample_args (Some (11 / 10))) four_failures_then_valid (\<lambda>a. 1 / 2)
     = (Inr (ensure_required_fields (sample_args (Some (11 / 10)))
               (sample_response ''BUY'' (Some (1105 / 1000)))),
        [3 / 2, 5 / 2, 9 / 2, 17 / 2])
   \<and> call_model_structured (sample_args (Some (11 / 10))) five_failures (\<lambda>a. 1 / 2)
     = (Inl (RuntimeError 5 (Some ''ValueError: Empty response from OpenAI API'')),
        [3 / 2, 5 / 2, 9 / 2, 17 / 2])"
proof -
  have m: "max_retries (sample_args (Some (11 / 10))) = 5"
    by (simp add: sample_args_def)
  have j: "\<forall>a :: int. (0 :: real) \<le> 1 / 2 \<and> (1 / 2 :: real) \<le> 7 / 10"
    by simp
  have r4: "(0 :: int) \<le> 4 \<and> (4 :: int) < 5
     \<and> (\<forall>i. 0 \<le> i \<and> i < 4 \<longrightarrow> isl (four_failures_then_valid i))
     \<and> four_failures_then_valid 4 = Inr (sample_response ''BUY'' (Some (1105 / 1000)))"
    by (simp add: four_failures_then_valid_def)
  have r5: "\<forall>i. 0 \<le> i \<and> i < 5 \<longrightarrow> five_failures i
      = Inl (if i < 4 then ''JSONDecodeError: Expecting value''
             else ''ValueError: Empty response from OpenAI API'')"
    by (simp add: five_failures_def)
  have l3: "[0..3] = [0, 1, 2, 3 :: int]" by (simp add: upto.simps)
  note t4 =
    five_attempt_budget [OF m j, of 4 four_failures_then_valid
      "sample_response ''BUY'' (Some (1105 / 1000))"]
  note t5 =
    five_attempt_budget [OF m j, where respond = five_failures
      and err = "\<lambda>i. if i < 4 then ''JSONDecodeError: Expecting value''
                   else ''ValueError: Empty response from OpenAI API''"]
  have a: "call_model_structured (sample_args (Some (11 / 10))) four_failures_then_valid (\<lambda>a. 1 / 2)
     = (Inr (ensure_required_fields (sample_args (Some (11 / 10)))
               (sample_response ''BUY'' (Some (1105 / 1000)))),
        map (\<lambda>a. of_int (min (2 ^ nat a) 30) + 1 / 2) [0..4 - 1])"
    using t4 r4 by blast
  have b: "call_model_structured (sample_args (Some (11 / 10))) five_failures (\<lambda>a. 1 / 2)
     = (Inl (RuntimeError 5 (Some (if (4 :: int) < 4 then ''JSONDecodeError: Expecting value''
             else ''ValueError: Empty response from OpenAI API''))),
        map (\<lambda>a. of_int (min (2 ^ nat a) 30) + 1 / 2) [0..3])"
    using t5 r5 by blast
  show ?thesis
    unfolding a b by (simp add: l3)
qed

text \<open>
  C7. Whenever the call returns a record, some attempt brought a parsed response and the
  record is that response with \<open>prompt_name\<close> and \<open>current_price\<close> set to the caller's
  identifier and reference price, with \<open>symbol\<close>, \<open>timeframe\<close>, \<open>timestamp_utc\<close> and
  \<open>raw_notes\<close> taken from the caller where the response had them empty and kept
  otherwise, with \<open>entry_distance_pips\<close> recomputed from the response's entry, the
  reference price and the caller's symbol, and with every other field as in the response.
\<close>

theorem requester_fills_fields:
  assumes "fst (call_model_structured args respond jitter) = Inr r"
  shows "\<exists>k data. 0 \<le> k \<and> k < max_retries args \<and> respond k = Inr data \<and>
    r = \<lparr>symbol = (if symbol data = [] then a_symbol args else symbol data),
         timeframe = (if timeframe data = [] then a_timeframe args else timeframe data),
         timestamp_utc =
           (if timestamp_utc data = [] then a_timestamp_utc args else timestamp_utc data),
         signal = signal data, confidence = confidence data, entry = entry data,
         stop = stop data, targets = targets data, rationale = rationale data,
         invalidation = invalidation data,
         prompt_name = a_prompt_name args,
         raw_notes = (if raw_notes data = [] then a_notes args else raw_notes data),
         current_price = a_current_price args,
         entry_distance_pips =
           calculate_pip_distance (entry data) (a_current_price args) (a_symbol args)\<rparr>"
proof -
  from assms obtain k data where "0 \<le> k" "k < max_retries args" "respond k = Inr data"
    "r = ensure_required_fields args data"
    unfolding call_model_structured_def by (blast dest: loop_returns_filled)
  then show ?thesis
    by (intro exI [of _ k] exI [of _ data]) (simp add: ensure_required_fields_eq)
qed

text \<open>
  C7 on the run with a fifth valid response: the model's symbol, timeframe and timestamp
  are kept, its empty notes are replaced, its prompt name, price and distance overwritten.
\<close>

theorem requester_fills_fields_witness:
  "fst (call_model_structured (sample_args (Some (11 / 10))) four_failures_then_valid (\<lambda>a. 1 / 2))
     = Inr \<lparr>symbol = ''EURUSD'', timeframe = ''5m'',
            timestamp_utc = ''2025-01-01T10:00:00+00:00'',
            signal = ''BUY'', confidence = 7 / 10, entry = Some (1105 / 1000), stop = None,
            targets = [], rationale = ''trend'', invalidation = ''break'',
            prompt_name = ''prompt1'', raw_notes = ''notes'',
            current_price = Some (11 / 10), entry_distance_pips = Some (1 / 2)\<rparr>"
proof -
  define r where "r = ensure_required_fields (sample_args (Some (11 / 10)))
                        (sample_response ''BUY'' (Some (1105 / 1000)))"
  have c: "fst (call_model_structured (sample_args (Some (11 / 10))) four_failures_then_valid (\<lambda>a. 1 / 2))
     = Inr r"
    unfolding call_model_structured_def r_def
    by (subst loop_success [where k = 4 and d = "sample_response ''BUY'' (Some (1105 / 1000))"])
       (simp_all add: sample_args_def four_failures_then_valid_def)
  from requester_fills_fields [OF c]
  obtain k data where k: "four_failures_then_valid k = Inr data"
    and r: "r = \<lparr>symbol = (if symbol data = [] then a_symbol (sample_args (Some (11 / 10)))
                           else symbol data),
         timeframe = (if timeframe data = [] then a_timeframe (sample_args (Some (11 / 10)))
                      else timeframe data),
         timestamp_utc =
           (if timestamp_utc data = [] then a_timestamp_utc (sample_args (Some (11 / 10)))
            else timestamp_utc data),
         signal = signal data, confidence = confidence data, entry = entry data,
         stop = stop data, targets = targets data, rationale = rationale data,
         invalidation = invalidation data,
         prompt_name = a_prompt_name (sample_args (Some (11 / 10))),
         raw_notes = (if raw_notes data = [] then a_notes (sample_args (Some (11 / 10)))
                      else raw_notes data),
         current_price = a_current_price (sample_args (Some (11 / 10))),
         entry_distance_pips =
           calculate_pip_distance (entry data) (a_current_price (sample_args (Some (11 / 10))))
             (a_symbol (sample_args (Some (11 / 10))))\<rparr>"
    by blast
  from k have data: "data = sample_response ''BUY'' (Some (1105 / 1000))"
    by (simp add: four_failures_then_valid_def split: if_splits)
  have ev: "ensure_required_fields (sample_args (Some (11 / 10)))
              (sample_response ''BUY'' (Some (1105 / 1000)))
     = \<lparr>symbol = ''EURUSD'', timeframe = ''5m'',
        timestamp_utc = ''2025-01-01T10:00:00+00:00'',
        signal = ''BUY'', confidence = 7 / 10, entry = Some (1105 / 1000), stop = None,
        targets = [], rationale = ''trend'', invalidation = ''break'',
        prompt_name = ''prompt1'', raw_notes = ''notes'',
        current_price = Some (11 / 10), entry_distance_pips = Some (1 / 2)\<rparr>"
    by code_simp
  from r have "r = ensure_required_fields (sample_args (Some (11 / 10))) data"
    by (simp only: ensure_required_fields_eq)
  with data ev have "r = \<lparr>symbol = ''EURUSD'', timeframe = ''5m'',
            timestamp_utc = ''2025-01-01T10:00:00+00:00'',
            signal = ''BUY'', confidence = 7 / 10, entry = Some (1105 / 1000), stop = None,
            targets = [], rationale = ''trend'', invalidation = ''break'',
            prompt_name = ''prompt1'', raw_notes = ''notes'',
            current_price = Some (11 / 10), entry_distance_pips = Some (1 / 2)\<rparr>"
    by (simp only:)
  with c show ?thesis by simp
qed

end
